theory Spec2Isabelle
  imports Main
begin

section \<open>Values and rows\<close>

text \<open>
  A JSON value, as a request body field carries it and a response body returns it. A field
  that is absent from the body (JavaScript's \<open>undefined\<close>) is \<open>None\<close> of
  \<open>json option\<close>. Numbers are integers: the handlers only compare and add them.
\<close>

datatype json =
    JNull
  | JBool bool
  | JNum int
  | JStr string
  | JArr "json list"
  | JObj "(string \<times> json) list"

text \<open>A point in time: milliseconds since the epoch, as \<open>Date.now()\<close> returns it.\<close>

type_synonym date = int

text \<open>The row of \<open>src/models/User.js\<close> (table of accounts).\<close>

record user =
  user_id :: string
  email :: string
  password :: string
  isPremium :: bool
  stripeCustomerId :: "string option"
  stripeSubscriptionId :: "string option"
  subscriptionStatus :: string
  language :: string
  country :: "string option"
  age :: "int option"
  sex :: "string option"
  gdprConsentDate :: "date option"
  marketingConsent :: bool
  dataRetentionConsent :: bool
  lastLogin :: "date option"
  accountDeletionScheduled :: "date option"

text \<open>The row of \<open>src/models/Analysis.js\<close> (a submission).\<close>

record analysis =
  analysis_id :: string
  analysis_userId :: string
  imageUrl :: string
  imagePublicId :: string
  affectedArea :: string
  questionnaire :: json
  aiResult :: json
  isPremiumAnalysis :: bool
  scheduledDeletion :: "date option"
  createdAt :: date

text \<open>The row of \<open>src/models/Consent.js\<close>.\<close>

record consent =
  consent_id :: string
  consent_userId :: string
  consentType :: string
  consentGiven :: bool
  ipAddress :: string
  userAgent :: "string option"
  version :: string

text \<open>
  What the handlers do outside the database, in the order they do it: a line written with
  \<open>console.error\<close>, and each call issued to the payment processor, the media host and
  the vision model. A call is recorded when it is issued, whether or not it succeeds.
\<close>

datatype effect =
    ConsoleError string
  | StripeSubscriptionsCancel string
  | CloudinaryDeleteByPrefix string
  | CloudinaryDeleteFolder string
  | CloudinaryUpload string
  | CloudinaryDestroy string
  | OpenAIAnalyze string

text \<open>
  The state the handlers share: the three tables, the trace of external effects, and the
  number of hits each rate limiter holds for a key in its current window.
  Calls to the database succeed unless they break a constraint the models declare (an
  enumeration, a column that is not nullable): an unreachable or failing database is outside
  this model. The columns the ORM stamps on accounts and consents are left out.
\<close>

record world =
  users :: "user list"
  analyses :: "analysis list"
  consents :: "consent list"
  effects :: "effect list"
  analysisHits :: "string \<Rightarrow> nat"
  authHits :: "string \<Rightarrow> nat"

record response =
  status :: nat
  body :: json

text \<open>A thrown \<open>Error\<close>, with its message.\<close>

datatype error = Thrown string

definition json_error :: "nat \<Rightarrow> string \<Rightarrow> response" where
  "json_error code msg = \<lparr>status = code, body = JObj [(''error'', JStr msg)]\<rparr>"

definition json_message :: "string \<Rightarrow> response" where
  "json_message msg = \<lparr>status = 200, body = JObj [(''message'', JStr msg)]\<rparr>"

definition emit :: "effect \<Rightarrow> world \<Rightarrow> world" where
  "emit e w = w\<lparr>effects := effects w @ [e]\<rparr>"

section \<open>Queries of the ORM\<close>

definition findByPk :: "user list \<Rightarrow> string \<Rightarrow> user option" where
  "findByPk us i = List.find (\<lambda>u. user_id u = i) us"

text \<open>\<open>instance.update(values)\<close>: \<open>UPDATE ... WHERE id = instance.id\<close>.\<close>

definition update_user :: "string \<Rightarrow> (user \<Rightarrow> user) \<Rightarrow> world \<Rightarrow> world" where
  "update_user i f w = w\<lparr>users := map (\<lambda>u. if user_id u = i then f u else u) (users w)\<rparr>"

section \<open>src/middleware/auth.js\<close>

text \<open>
  What \<open>jwt.verify\<close> makes of the bearer token of a request: there is none, it has
  expired, it is otherwise invalid, or it decodes to an account identifier.
\<close>

datatype token = NoToken | TokenExpired | TokenInvalid | TokenFor string

fun authenticate :: "world \<Rightarrow> token \<Rightarrow> response + user" where
  "authenticate w NoToken = Inl (json_error 401 ''Authentication required'')"
| "authenticate w TokenExpired = Inl (json_error 401 ''Token expired'')"
| "authenticate w TokenInvalid = Inl (json_error 401 ''Invalid token'')"
| "authenticate w (TokenFor i) =
     (case findByPk (users w) i of
        None \<Rightarrow> Inl (json_error 401 ''User not found'')
      | Some u \<Rightarrow> Inr u)"

section \<open>src/middleware/gdpr.js\<close>

text \<open>The address and client string of a request (\<open>req.ip\<close>, the user-agent header).\<close>

record origin =
  ip :: string
  agent :: "string option"

definition consent_types :: "string list" where
  "consent_types = [''gdpr'', ''marketing'', ''data_retention'', ''cookies'']"

text \<open>
  \<open>logConsent\<close> appends one row and swallows a failure of \<open>Consent.create\<close> (a type
  outside the column's enumeration), logging it. \<open>newId\<close> is the UUID the row gets.
\<close>

definition logConsent :: "string \<Rightarrow> string \<Rightarrow> bool \<Rightarrow> origin \<Rightarrow> string \<Rightarrow> world \<Rightarrow> world" where
  "logConsent userId ctype given req newId w =
     (if ctype \<in> set consent_types
      then w\<lparr>consents := consents w @
             [\<lparr>consent_id = newId, consent_userId = userId, consentType = ctype,
               consentGiven = given, ipAddress = ip req, userAgent = agent req,
               version = ''1.0''\<rparr>]\<rparr>
      else emit (ConsoleError ''Consent logging error:'') w)"

definition requireGDPRConsent :: "user \<Rightarrow> response + unit" where
  "requireGDPRConsent u =
     (case gdprConsentDate u of
        None \<Rightarrow> Inl \<lparr>status = 403, body = JObj [(''error'', JStr ''GDPR consent required''),
                                               (''consentRequired'', JBool True)]\<rparr>
      | Some d \<Rightarrow> Inr ())"

section \<open>src/services/stripeService.js\<close>

text \<open>
  \<open>cancelSubscription\<close> calls the payment processor; when the call fails it logs the
  error and throws it again. \<open>ok\<close> is whether the processor's call succeeds.
\<close>

definition cancelSubscription :: "bool \<Rightarrow> string \<Rightarrow> world \<Rightarrow> error \<times> world + world" where
  "cancelSubscription ok subscriptionId w =
     (let w1 = emit (StripeSubscriptionsCancel subscriptionId) w in
      if ok then Inr w1
      else Inl (Thrown ''stripe.subscriptions.cancel'',
                emit (ConsoleError ''Stripe subscription cancellation error:'') w1))"

text \<open>
  The object of a webhook event (\<open>event.data.object\<close>): a subscription or an invoice, of
  which the handlers read the identifier, the customer and the status.
\<close>

record stripe_object =
  obj_id :: string
  obj_customer :: string
  obj_status :: string

record event =
  ev_type :: string
  ev_object :: stripe_object

definition subscription_statuses :: "string list" where
  "subscription_statuses = [''active'', ''canceled'', ''past_due'', ''inactive'']"

text \<open>
  \<open>updateSubscriptionStatus\<close>: the first account of the customer gets the subscription's
  identifier and status, and \<open>isPremium\<close> is whether that status is \<open>active\<close>. A status
  outside the column's enumeration makes the update throw.
\<close>

definition updateSubscriptionStatus :: "stripe_object \<Rightarrow> world \<Rightarrow> error \<times> world + world" where
  "updateSubscriptionStatus subscription w =
     (case List.find (\<lambda>u. stripeCustomerId u = Some (obj_customer subscription)) (users w) of
        None \<Rightarrow> Inr w
      | Some u \<Rightarrow>
          if obj_status subscription \<in> set subscription_statuses
          then Inr (update_user (user_id u)
                 (\<lambda>r. r\<lparr>stripeSubscriptionId := Some (obj_id subscription),
                         subscriptionStatus := obj_status subscription,
                         isPremium := (obj_status subscription = ''active'')\<rparr>) w)
          else Inl (Thrown ''invalid input value for enum'', w))"

definition handleSubscriptionDeleted :: "stripe_object \<Rightarrow> world \<Rightarrow> error \<times> world + world" where
  "handleSubscriptionDeleted subscription w =
     (case List.find (\<lambda>u. stripeSubscriptionId u = Some (obj_id subscription)) (users w) of
        None \<Rightarrow> Inr w
      | Some u \<Rightarrow>
          Inr (update_user (user_id u)
                 (\<lambda>r. r\<lparr>subscriptionStatus := ''inactive'', isPremium := False\<rparr>) w))"

definition handlePaymentFailed :: "stripe_object \<Rightarrow> world \<Rightarrow> error \<times> world + world" where
  "handlePaymentFailed invoice w =
     (case List.find (\<lambda>u. stripeCustomerId u = Some (obj_customer invoice)) (users w) of
        None \<Rightarrow> Inr w
      | Some u \<Rightarrow>
          Inr (update_user (user_id u) (\<lambda>r. r\<lparr>subscriptionStatus := ''past_due''\<rparr>) w))"

text \<open>
  \<open>handleWebhook\<close>. \<open>constructed\<close> is what \<open>stripe.webhooks.constructEvent\<close> makes of
  the payload and its signature: \<open>None\<close> when it throws (the signature does not verify).
  Whatever is thrown inside is logged and thrown again.
\<close>

definition dispatch :: "event \<Rightarrow> world \<Rightarrow> error \<times> world + world" where
  "dispatch ev w =
     (if ev_type ev = ''customer.subscription.created''
         \<or> ev_type ev = ''customer.subscription.updated''
      then updateSubscriptionStatus (ev_object ev) w
      else if ev_type ev = ''customer.subscription.deleted''
      then handleSubscriptionDeleted (ev_object ev) w
      else if ev_type ev = ''invoice.payment_failed''
      then handlePaymentFailed (ev_object ev) w
      else Inr w)"

definition handleWebhook :: "event option \<Rightarrow> world \<Rightarrow> error \<times> world + world" where
  "handleWebhook constructed w =
     (case (case constructed of
              None \<Rightarrow> Inl (Thrown ''No signatures found matching the expected signature'', w)
            | Some ev \<Rightarrow> dispatch ev w) of
        Inl (e, w1) \<Rightarrow> Inl (e, emit (ConsoleError ''Webhook error:'') w1)
      | Inr w1 \<Rightarrow> Inr w1)"

section \<open>src/routes/subscription.js\<close>

definition webhook_route :: "event option \<Rightarrow> world \<Rightarrow> response \<times> world" where
  "webhook_route constructed w =
     (case handleWebhook constructed w of
        Inl (e, w1) \<Rightarrow>
          (json_error 400 ''Webhook processing failed'', emit (ConsoleError ''Webhook error:'') w1)
      | Inr w1 \<Rightarrow> (\<lparr>status = 200, body = JObj [(''received'', JBool True)]\<rparr>, w1))"

section \<open>src/services/imageService.js\<close>

text \<open>
  \<open>deleteUserImages\<close> issues two calls to the media host, the second only after the first
  succeeded, and swallows a failure of either, logging it. \<open>folder\<close> is the configured
  \<open>CLOUDINARY_FOLDER\<close>.
\<close>

definition user_folder :: "string \<Rightarrow> string \<Rightarrow> string" where
  "user_folder folder userId = folder @ ''/'' @ userId"

definition deleteUserImages :: "string \<Rightarrow> bool \<Rightarrow> bool \<Rightarrow> string \<Rightarrow> world \<Rightarrow> world" where
  "deleteUserImages folder prefixOk folderOk userId w =
     (let w1 = emit (CloudinaryDeleteByPrefix (user_folder folder userId)) w in
      if \<not> prefixOk then emit (ConsoleError ''Bulk image deletion error:'') w1
      else
        let w2 = emit (CloudinaryDeleteFolder (user_folder folder userId)) w1 in
        if \<not> folderOk then emit (ConsoleError ''Bulk image deletion error:'') w2
        else w2)"


section \<open>src/routes/gdpr.js\<close>

text \<open>
  Each route is its chain of middleware: \<open>authenticate\<close>, then the handler on the account
  it found (\<open>req.user\<close>).
\<close>

definition consent_handler ::
    "origin \<Rightarrow> string \<Rightarrow> json option \<Rightarrow> bool \<Rightarrow> user \<Rightarrow> world \<Rightarrow> response \<times> world" where
  "consent_handler req newId ctype given u w =
     (case ctype of
        Some (JStr t) \<Rightarrow>
          if t \<notin> set [''marketing'', ''data_retention'', ''cookies'']
          then (json_error 400 ''Invalid consent type'', w)
          else
            let w1 = logConsent (user_id u) t given req newId w;
                w2 = (if t = ''marketing''
                      then update_user (user_id u) (\<lambda>r. r\<lparr>marketingConsent := given\<rparr>) w1
                      else if t = ''data_retention''
                      then update_user (user_id u) (\<lambda>r. r\<lparr>dataRetentionConsent := given\<rparr>) w1
                      else w1)
            in (json_message ''Consent updated successfully'', w2)
      | _ \<Rightarrow> (json_error 400 ''Invalid consent type'', w))"

definition consent_route ::
    "token \<Rightarrow> origin \<Rightarrow> string \<Rightarrow> json option \<Rightarrow> bool \<Rightarrow> world \<Rightarrow> response \<times> world" where
  "consent_route tok req newId ctype given w =
     (case authenticate w tok of
        Inl r \<Rightarrow> (r, w)
      | Inr u \<Rightarrow> consent_handler req newId ctype given u w)"

definition confirm_message :: string where
  "confirm_message = ''Please confirm deletion by sending '' @ [CHR 0x22] @ ''DELETE'' @ [CHR 0x22]"

text \<open>
  \<open>POST /gdpr/delete-account\<close>. \<open>stripeOk\<close>, \<open>prefixOk\<close> and \<open>folderOk\<close> are whether
  the calls to the payment processor and to the media host succeed. The subscription is
  cancelled when the account's \<open>stripeSubscriptionId\<close> is truthy: neither \<open>null\<close> nor
  the empty string.
\<close>

definition delete_account_handler ::
    "string \<Rightarrow> bool \<Rightarrow> bool \<Rightarrow> bool \<Rightarrow> json option \<Rightarrow> user \<Rightarrow> world \<Rightarrow> response \<times> world" where
  "delete_account_handler folder stripeOk prefixOk folderOk confirmation u w =
     (if confirmation \<noteq> Some (JStr ''DELETE'')
      then (json_error 400 confirm_message, w)
      else
        case (case stripeSubscriptionId u of
                Some sid \<Rightarrow> if sid \<noteq> [] then cancelSubscription stripeOk sid w else Inr w
              | None \<Rightarrow> Inr w) of
          Inl (e, w1) \<Rightarrow>
            (json_error 500 ''Failed to delete account'',
             emit (ConsoleError ''Account deletion error:'') w1)
        | Inr w1 \<Rightarrow>
            let w2 = deleteUserImages folder prefixOk folderOk (user_id u) w1;
                w3 = w2\<lparr>analyses := filter (\<lambda>a. analysis_userId a \<noteq> user_id u) (analyses w2)\<rparr>;
                w4 = w3\<lparr>consents := filter (\<lambda>c. consent_userId c \<noteq> user_id u) (consents w3)\<rparr>;
                w5 = w4\<lparr>users := filter (\<lambda>r. user_id r \<noteq> user_id u) (users w4)\<rparr>
            in (json_message ''Account and all associated data deleted successfully'', w5))"

definition delete_account_route ::
    "token \<Rightarrow> string \<Rightarrow> bool \<Rightarrow> bool \<Rightarrow> bool \<Rightarrow> json option \<Rightarrow> world \<Rightarrow> response \<times> world" where
  "delete_account_route tok folder stripeOk prefixOk folderOk confirmation w =
     (case authenticate w tok of
        Inl r \<Rightarrow> (r, w)
      | Inr u \<Rightarrow> delete_account_handler folder stripeOk prefixOk folderOk confirmation u w)"

definition msPerDay :: int where
  "msPerDay = 24 * 60 * 60 * 1000"

text \<open>
  \<open>POST /gdpr/schedule-deletion\<close>: \<open>new Date()\<close> moved on by
  \<open>setDate(getDate() + 30)\<close>, thirty calendar days at the same time of day; the server's
  clock is taken to run at a fixed offset from UTC (no daylight saving shift between the two
  dates), where that is thirty times 24 hours. \<open>now\<close> is the clock's reading.
\<close>

definition schedule_deletion_handler :: "date \<Rightarrow> user \<Rightarrow> world \<Rightarrow> response \<times> world" where
  "schedule_deletion_handler now u w =
     (let deletionDate = now + 30 * msPerDay in
      (\<lparr>status = 200, body = JObj [(''message'', JStr ''Account deletion scheduled''),
                                   (''deletionDate'', JNum deletionDate)]\<rparr>,
       update_user (user_id u) (\<lambda>r. r\<lparr>accountDeletionScheduled := Some deletionDate\<rparr>) w))"

definition schedule_deletion_route :: "token \<Rightarrow> date \<Rightarrow> world \<Rightarrow> response \<times> world" where
  "schedule_deletion_route tok now w =
     (case authenticate w tok of
        Inl r \<Rightarrow> (r, w)
      | Inr u \<Rightarrow> schedule_deletion_handler now u w)"

definition cancel_deletion_handler :: "user \<Rightarrow> world \<Rightarrow> response \<times> world" where
  "cancel_deletion_handler u w =
     (json_message ''Account deletion canceled'',
      update_user (user_id u) (\<lambda>r. r\<lparr>accountDeletionScheduled := None\<rparr>) w)"

definition cancel_deletion_route :: "token \<Rightarrow> world \<Rightarrow> response \<times> world" where
  "cancel_deletion_route tok w =
     (case authenticate w tok of
        Inl r \<Rightarrow> (r, w)
      | Inr u \<Rightarrow> cancel_deletion_handler u w)"

section \<open>Configuration and libraries\<close>

text \<open>The variables of \<open>process.env\<close> the modelled handlers read.\<close>

record config =
  CLOUDINARY_FOLDER :: string
  DATA_RETENTION_DAYS :: "string option"
  production :: bool
  JWT_SECRET :: string
  JWT_REFRESH_SECRET :: string

text \<open>
  The functions of third-party packages whose results the handlers only pass on:
  \<open>validator.isEmail\<close>, \<open>validator.normalizeEmail\<close>, \<open>bcrypt.hash\<close> (cost, salt,
  input), \<open>jwt.sign\<close> (key, account identifier, time of issue) and \<open>JSON.parse\<close>
  (\<open>None\<close> when it throws).
\<close>

record library =
  isEmail :: "string \<Rightarrow> bool"
  normalizeEmail :: "string \<Rightarrow> string"
  bcrypt_hash :: "nat \<Rightarrow> string \<Rightarrow> string \<Rightarrow> string"
  jwt_sign :: "string \<Rightarrow> string \<Rightarrow> date \<Rightarrow> string"
  json_parse :: "string \<Rightarrow> json option"

section \<open>src/middleware/rateLimit.js\<close>

text \<open>
  The middleware \<open>rateLimit\<close> of express-rate-limit counts the request under its key and
  answers 429 with the configured message once the key's hits in the current window exceed
  \<open>max\<close>; otherwise the chain goes on. \<open>hits\<close> is the count the limiter holds for each
  key in its current window; the package drops a key's count when its window (\<open>windowMs\<close>)
  has run out, which is no step of a request.
\<close>

definition rateLimit :: "nat \<Rightarrow> string \<Rightarrow> string \<Rightarrow> (string \<Rightarrow> nat) \<Rightarrow> response option \<times> (string \<Rightarrow> nat)" where
  "rateLimit max_hits message key hits =
     (let totalHits = Suc (hits key); hits1 = hits(key := totalHits) in
      if totalHits > max_hits
      then (Some \<lparr>status = 429, body = JStr message\<rparr>, hits1)
      else (None, hits1))"

text \<open>\<open>analysisLimiter\<close>: \<open>max\<close> and \<open>keyGenerator\<close> read \<open>req.user\<close>.\<close>

definition analysis_max :: "user option \<Rightarrow> nat" where
  "analysis_max u = (case u of Some r \<Rightarrow> if isPremium r then 50 else 5 | None \<Rightarrow> 5)"

definition analysis_key :: "user option \<Rightarrow> origin \<Rightarrow> string" where
  "analysis_key u req =
     (case u of Some r \<Rightarrow> if user_id r \<noteq> [] then user_id r else ip req | None \<Rightarrow> ip req)"

definition analysisLimiter :: "user option \<Rightarrow> origin \<Rightarrow> world \<Rightarrow> response option \<times> world" where
  "analysisLimiter u req w =
     (case rateLimit (analysis_max u)
             ''Analysis limit reached. Upgrade to Premium for more analyses.''
             (analysis_key u req) (analysisHits w) of
        (r, h) \<Rightarrow> (r, w\<lparr>analysisHits := h\<rparr>))"

definition authLimiter :: "origin \<Rightarrow> world \<Rightarrow> response option \<times> world" where
  "authLimiter req w =
     (case rateLimit 5 ''Too many login attempts, please try again later.''
             (ip req) (authHits w) of
        (r, h) \<Rightarrow> (r, w\<lparr>authHits := h\<rparr>))"

section \<open>Uploads: multer and src/services/imageService.js\<close>

text \<open>The uploaded file as multer describes it: its media type and its size in bytes.\<close>

record upload =
  mimetype :: string
  fsize :: nat

definition startsWith :: "string \<Rightarrow> string \<Rightarrow> bool" where
  "startsWith s p = (take (length p) s = p)"

definition maxSize :: nat where
  "maxSize = 10 * 1024 * 1024"

text \<open>
  \<open>upload.single('image')\<close> as the route configures multer: the file filter first, then
  the size limit while the file is read. The limit refuses a file that reaches
  \<open>fileSize\<close> bytes, so one of exactly 10 MiB is refused too. An error goes to
  \<open>next(err)\<close>.
\<close>

definition multer_single :: "upload option \<Rightarrow> error + upload option" where
  "multer_single part =
     (case part of
        None \<Rightarrow> Inr None
      | Some f \<Rightarrow>
          if \<not> startsWith (mimetype f) ''image/''
          then Inl (Thrown ''Only image files are allowed'')
          else if maxSize \<le> fsize f
          then Inl (Thrown ''File too large'')
          else Inr (Some f))"

text \<open>
  The error handler of \<open>src/app.js\<close>, for an error that carries no status: it logs the
  error's stack and answers 500.
\<close>

definition app_error_handler :: "config \<Rightarrow> error \<Rightarrow> world \<Rightarrow> response \<times> world" where
  "app_error_handler cfg e w =
     (case e of Thrown msg \<Rightarrow>
        (json_error 500 (if production cfg then ''Internal server error'' else msg),
         emit (ConsoleError msg) w))"

definition allowedTypes :: "string list" where
  "allowedTypes = [''image/jpeg'', ''image/png'', ''image/jpg'']"

definition validateImage :: "upload \<Rightarrow> error + bool" where
  "validateImage file =
     (if mimetype file \<notin> set allowedTypes
      then Inl (Thrown ''Invalid file type. Only JPG and PNG are allowed.'')
      else if fsize file > maxSize
      then Inl (Thrown ''File too large. Maximum size is 10MB.'')
      else Inr True)"

text \<open>
  What happens to the image in \<open>uploadImage\<close>: the re-encoding fails, the call to the
  media host fails, or the host stores the image and returns its URL and public identifier.
\<close>

datatype upload_outcome = ProcessingFails | UploadFails | Uploaded string string

definition uploadImage ::
    "config \<Rightarrow> upload_outcome \<Rightarrow> string \<Rightarrow> world \<Rightarrow> error \<times> world + (string \<times> string) \<times> world" where
  "uploadImage cfg outcome userId w =
     (case outcome of
        ProcessingFails \<Rightarrow>
          Inl (Thrown ''Failed to upload image'', emit (ConsoleError ''Image upload error:'') w)
      | UploadFails \<Rightarrow>
          Inl (Thrown ''Failed to upload image'',
               emit (ConsoleError ''Image upload error:'')
                 (emit (CloudinaryUpload (user_folder (CLOUDINARY_FOLDER cfg) userId)) w))
      | Uploaded url publicId \<Rightarrow>
          Inr ((url, publicId),
               emit (CloudinaryUpload (user_folder (CLOUDINARY_FOLDER cfg) userId)) w))"

section \<open>src/services/aiService.js\<close>

text \<open>
  \<open>analyzeImage\<close>: \<open>outcome\<close> is the formatted result of the two calls to the vision
  model, \<open>None\<close> when one of them (or parsing the answer) fails.
\<close>

definition analyzeImage :: "json option \<Rightarrow> string \<Rightarrow> world \<Rightarrow> error \<times> world + json \<times> world" where
  "analyzeImage outcome url w =
     (let w1 = emit (OpenAIAnalyze url) w in
      case outcome of
        None \<Rightarrow> Inl (Thrown ''Failed to analyze image. Please try again.'',
                     emit (ConsoleError ''AI Analysis Error:'') w1)
      | Some r \<Rightarrow> Inr (r, w1))"

section \<open>Numbers and dates of JavaScript\<close>

text \<open>
  \<open>parseInt(string)\<close> with no radix: leading white space is skipped, a sign is read, a
  prefix \<open>0x\<close> selects base 16, and the longest run of digits of the base is the value;
  with no digit the result is \<open>NaN\<close>, here \<open>None\<close>. An unset variable reads as the
  string \<open>undefined\<close>. Only the ASCII white space is recognised here.
\<close>

definition isWhiteSpace :: "char \<Rightarrow> bool" where
  "isWhiteSpace c = (c \<in> set [CHR '' '', CHR 0x09, CHR 0x0A, CHR 0x0B, CHR 0x0C, CHR 0x0D])"

definition digitValue :: "char \<Rightarrow> nat option" where
  "digitValue c =
     (let n = (of_char c :: nat) in
      if 48 \<le> n \<and> n \<le> 57 then Some (n - 48)
      else if 97 \<le> n \<and> n \<le> 122 then Some (n - 87)
      else if 65 \<le> n \<and> n \<le> 90 then Some (n - 55)
      else None)"

fun digits :: "nat \<Rightarrow> string \<Rightarrow> nat list" where
  "digits radix [] = []"
| "digits radix (c # cs) =
     (case digitValue c of
        None \<Rightarrow> []
      | Some d \<Rightarrow> if d < radix then d # digits radix cs else [])"

definition parseInt :: "string option \<Rightarrow> int option" where
  "parseInt v =
     (let s = dropWhile isWhiteSpace (case v of None \<Rightarrow> ''undefined'' | Some x \<Rightarrow> x);
          negative = (take 1 s = ''-'');
          s1 = (if take 1 s = ''-'' \<or> take 1 s = ''+'' then drop 1 s else s);
          hex = (take 2 s1 = ''0x'' \<or> take 2 s1 = ''0X'');
          radix = (if hex then 16 else 10);
          ds = digits radix (if hex then drop 2 s1 else s1)
      in if ds = [] then None
         else Some ((if negative then - 1 else 1) * int (foldl (\<lambda>a d. a * radix + d) 0 ds)))"

text \<open>
  \<open>new Date(t)\<close>: a time value beyond 8.64e15 ms from the epoch, or \<open>NaN\<close>, gives an
  invalid date, here \<open>None\<close>. Within that range the arithmetic of doubles is exact.
\<close>

definition new_Date :: "int option \<Rightarrow> date option" where
  "new_Date t =
     (case t of
        None \<Rightarrow> None
      | Some v \<Rightarrow> if \<bar>v\<bar> \<le> 8640000000000000 then Some v else None)"

section \<open>src/routes/analysis.js\<close>

text \<open>An entry of \<open>errors.array()\<close> of express-validator for a field of the body.\<close>

definition field_error :: "string \<Rightarrow> string option \<Rightarrow> json" where
  "field_error path v =
     JObj ([(''type'', JStr ''field'')]
           @ (case v of None \<Rightarrow> [] | Some x \<Rightarrow> [(''value'', JStr x)])
           @ [(''msg'', JStr ''Invalid value''), (''path'', JStr path),
              (''location'', JStr ''body'')])"

text \<open>\<open>isJSON\<close> of validator.js: the string parses to an object or an array.\<close>

definition isJSON :: "library \<Rightarrow> string \<Rightarrow> bool" where
  "isJSON lib str =
     (case json_parse lib str of
        Some (JObj kvs) \<Rightarrow> True
      | Some (JArr vs) \<Rightarrow> True
      | _ \<Rightarrow> False)"

text \<open>
  The fields of the multipart body of \<open>POST /analysis\<close>, and what the outside world
  contributes to one request: the clock's reading when the handler evaluates
  \<open>Date.now()\<close>, the clock's reading when the ORM stamps the new row, the identifier the
  ORM gives the new row, and the outcomes of the upload and of the analysis.
\<close>

record analysis_body =
  image :: "upload option"
  questionnaire_field :: "string option"
  area :: "string option"

record analysis_run =
  run_now :: date
  run_stamp :: date
  run_id :: string
  run_upload :: upload_outcome
  run_ai :: "json option"

text \<open>The \<open>catch\<close> of the handler.\<close>

definition analysis_catch :: "error \<Rightarrow> world \<Rightarrow> response \<times> world" where
  "analysis_catch e w =
     (case e of Thrown msg \<Rightarrow>
        (json_error 500 (if msg \<noteq> [] then msg else ''Analysis failed''),
         emit (ConsoleError ''Analysis error:'') w))"

text \<open>The values the handler passes to \<open>Analysis.create\<close>.\<close>

record analysis_values =
  v_userId :: string
  v_imageUrl :: string
  v_imagePublicId :: string
  v_affectedArea :: string
  v_questionnaire :: json
  v_aiResult :: json
  v_isPremiumAnalysis :: bool
  v_scheduledDeletion :: "date option"

text \<open>
  \<open>Analysis.create\<close>: the ORM gives the row its identifier (\<open>newId\<close>) and stamps
  \<open>createdAt\<close> from its own reading of the clock (\<open>stamp\<close>), which is not the reading
  the handler took for the expiry. An invalid date as expiry is refused by the database.
\<close>

definition Analysis_create ::
    "string \<Rightarrow> date \<Rightarrow> analysis_values \<Rightarrow> world \<Rightarrow> error \<times> world + analysis \<times> world" where
  "Analysis_create newId stamp vals w =
     (case v_scheduledDeletion vals of
        None \<Rightarrow> Inl (Thrown ''invalid input syntax for type timestamp with time zone'', w)
      | Some d \<Rightarrow>
          let row = \<lparr>analysis_id = newId, analysis_userId = v_userId vals,
                     imageUrl = v_imageUrl vals, imagePublicId = v_imagePublicId vals,
                     affectedArea = v_affectedArea vals, questionnaire = v_questionnaire vals,
                     aiResult = v_aiResult vals, isPremiumAnalysis = v_isPremiumAnalysis vals,
                     scheduledDeletion = Some d, createdAt = stamp\<rparr>
          in Inr (row, w\<lparr>analyses := analyses w @ [row]\<rparr>))"

definition create_analysis_handler ::
    "config \<Rightarrow> library \<Rightarrow> analysis_run \<Rightarrow> upload option \<Rightarrow> analysis_body \<Rightarrow> user \<Rightarrow> world
       \<Rightarrow> response \<times> world" where
  "create_analysis_handler cfg lib run file b u w =
     (if \<not> (case questionnaire_field b of None \<Rightarrow> False | Some q \<Rightarrow> isJSON lib q)
      then (\<lparr>status = 400,
             body = JObj [(''errors'', JArr [field_error ''questionnaire'' (questionnaire_field b)])]\<rparr>,
            w)
      else case file of
        None \<Rightarrow> (json_error 400 ''Image is required'', w)
      | Some f \<Rightarrow>
         (case validateImage f of
            Inl e \<Rightarrow> analysis_catch e w
          | Inr ok \<Rightarrow>
             (case uploadImage cfg (run_upload run) (user_id u) w of
                Inl (e, w1) \<Rightarrow> analysis_catch e w1
              | Inr ((url, publicId), w1) \<Rightarrow>
                 (case (case questionnaire_field b of None \<Rightarrow> None | Some q \<Rightarrow> json_parse lib q) of
                    None \<Rightarrow> analysis_catch (Thrown ''Unexpected token'') w1
                  | Some q \<Rightarrow>
                     (let a = (case area b of None \<Rightarrow> ''unknown''
                               | Some x \<Rightarrow> if x \<noteq> [] then x else ''unknown'') in
                      case analyzeImage (run_ai run) url w1 of
                        Inl (e, w2) \<Rightarrow> analysis_catch e w2
                      | Inr (result, w2) \<Rightarrow>
                         (case Analysis_create (run_id run) (run_stamp run)
                                 \<lparr>v_userId = user_id u, v_imageUrl = url,
                                  v_imagePublicId = publicId, v_affectedArea = a,
                                  v_questionnaire = q, v_aiResult = result,
                                  v_isPremiumAnalysis = isPremium u,
                                  v_scheduledDeletion =
                                    new_Date (case parseInt (DATA_RETENTION_DAYS cfg) of
                                                None \<Rightarrow> None
                                              | Some days \<Rightarrow> Some (run_now run + days * msPerDay))\<rparr>
                                 w2 of
                            Inl (e, w3) \<Rightarrow> analysis_catch e w3
                          | Inr (row, w3) \<Rightarrow>
                              (\<lparr>status = 201,
                                body = JObj [(''id'', JStr (analysis_id row)),
                                             (''aiResult'', aiResult row),
                                             (''createdAt'', JNum (createdAt row))]\<rparr>,
                               w3)))))))"

text \<open>
  The chain of \<open>POST /analysis\<close>: \<open>authenticate\<close>, \<open>requireGDPRConsent\<close>,
  \<open>analysisLimiter\<close>, \<open>upload.single('image')\<close>, the validators, the handler.
\<close>

definition create_analysis_route ::
    "config \<Rightarrow> library \<Rightarrow> analysis_run \<Rightarrow> token \<Rightarrow> origin \<Rightarrow> analysis_body \<Rightarrow> world
       \<Rightarrow> response \<times> world" where
  "create_analysis_route cfg lib run tok req b w =
     (case authenticate w tok of
        Inl r \<Rightarrow> (r, w)
      | Inr u \<Rightarrow>
         (case requireGDPRConsent u of
            Inl r \<Rightarrow> (r, w)
          | Inr ok \<Rightarrow>
             (case analysisLimiter (Some u) req w of
                (Some r, w1) \<Rightarrow> (r, w1)
              | (None, w1) \<Rightarrow>
                 (case multer_single (image b) of
                    Inl e \<Rightarrow> app_error_handler cfg e w1
                  | Inr file \<Rightarrow> create_analysis_handler cfg lib run file b u w1))))"


section \<open>src/routes/auth.js\<close>

text \<open>
  The body of \<open>POST /auth/register\<close>, its fields the strings the client's form sends (a
  field left out reads as the empty string or \<open>None\<close>), and what the outside world
  contributes: the clock's reading, the identifiers of the two new rows and the salt
  \<open>bcrypt\<close> draws. A string's length is the number of its characters.
\<close>

record register_body =
  reg_email :: string
  reg_password :: string
  reg_gdprConsent :: string
  reg_language :: "string option"
  reg_country :: "string option"

record register_run =
  reg_now :: date
  reg_userId :: string
  reg_consentId :: string
  reg_salt :: string

text \<open>The validators of the route, in their order; each failure echoes the field's value.\<close>

definition register_errors :: "library \<Rightarrow> register_body \<Rightarrow> json list" where
  "register_errors lib b =
     (if isEmail lib (reg_email b) then [] else [field_error ''email'' (Some (reg_email b))])
     @ (if 8 \<le> length (reg_password b) then []
        else [field_error ''password'' (Some (reg_password b))])
     @ (if reg_gdprConsent b = ''true'' then []
        else [field_error ''gdprConsent'' (Some (reg_gdprConsent b))])"

definition generateTokens :: "config \<Rightarrow> library \<Rightarrow> date \<Rightarrow> string \<Rightarrow> (string \<times> json) list" where
  "generateTokens cfg lib now userId =
     [(''accessToken'', JStr (jwt_sign lib (JWT_SECRET cfg) userId now)),
      (''refreshToken'', JStr (jwt_sign lib (JWT_REFRESH_SECRET cfg) userId now))]"

text \<open>
  \<open>User.create\<close>: the model's own \<open>isEmail\<close> validation, then the \<open>beforeCreate\<close>
  hook, which replaces a non-empty password by its hash, then the insert with the columns'
  defaults.
\<close>

definition User_create ::
    "library \<Rightarrow> register_run \<Rightarrow> string \<Rightarrow> string \<Rightarrow> string \<Rightarrow> string option \<Rightarrow> date option \<Rightarrow> world
       \<Rightarrow> error \<times> world + user \<times> world" where
  "User_create lib run mail pw lang ctry consentDate w =
     (if \<not> isEmail lib mail
      then Inl (Thrown ''Validation error: Validation isEmail on email failed'', w)
      else
        let row = \<lparr>user_id = reg_userId run, email = mail,
                   password = (if pw \<noteq> [] then bcrypt_hash lib 12 (reg_salt run) pw else pw),
                   isPremium = False, stripeCustomerId = None, stripeSubscriptionId = None,
                   subscriptionStatus = ''inactive'', language = lang, country = ctry,
                   age = None, sex = None, gdprConsentDate = consentDate,
                   marketingConsent = False, dataRetentionConsent = True,
                   lastLogin = None, accountDeletionScheduled = None\<rparr>
        in Inr (row, w\<lparr>users := users w @ [row]\<rparr>))"

definition register_handler ::
    "config \<Rightarrow> library \<Rightarrow> register_run \<Rightarrow> origin \<Rightarrow> register_body \<Rightarrow> world \<Rightarrow> response \<times> world" where
  "register_handler cfg lib run req b w =
     (if register_errors lib b \<noteq> []
      then (\<lparr>status = 400, body = JObj [(''errors'', JArr (register_errors lib b))]\<rparr>, w)
      else
        let mail = normalizeEmail lib (reg_email b) in
        case List.find (\<lambda>u. email u = mail) (users w) of
          Some existingUser \<Rightarrow> (json_error 400 ''Email already registered'', w)
        | None \<Rightarrow>
           (case User_create lib run mail (reg_password b)
                   (case reg_language b of None \<Rightarrow> ''English''
                    | Some l \<Rightarrow> if l \<noteq> [] then l else ''English'')
                   (reg_country b)
                   (if reg_gdprConsent b \<noteq> [] then Some (reg_now run) else None) w of
              Inl (e, w1) \<Rightarrow>
                (json_error 500 ''Registration failed'',
                 emit (ConsoleError ''Registration error:'') w1)
            | Inr (u, w1) \<Rightarrow>
                let w2 = logConsent (user_id u) ''gdpr'' True req (reg_consentId run) w1 in
                (\<lparr>status = 201,
                  body = JObj ([(''message'', JStr ''Registration successful''),
                                (''user'', JObj [(''id'', JStr (user_id u)),
                                                 (''email'', JStr (email u)),
                                                 (''isPremium'', JBool (isPremium u))])]
                               @ generateTokens cfg lib (reg_now run) (user_id u))\<rparr>,
                 w2)))"

definition register_route ::
    "config \<Rightarrow> library \<Rightarrow> register_run \<Rightarrow> origin \<Rightarrow> register_body \<Rightarrow> world \<Rightarrow> response \<times> world" where
  "register_route cfg lib run req b w =
     (case authLimiter req w of
        (Some r, w1) \<Rightarrow> (r, w1)
      | (None, w1) \<Rightarrow> register_handler cfg lib run req b w1)"

section \<open>The steps of the API\<close>


section \<open>Notions the statements use\<close>

text \<open>The invariant of an account: the premium flag says whether the status is \<open>active\<close>.\<close>

definition premium_in_step :: "user \<Rightarrow> bool" where
  "premium_in_step u = (isPremium u = (subscriptionStatus u = ''active''))"

text \<open>The state a service function leaves, whether it returned or threw.\<close>

definition world_of :: "error \<times> world + world \<Rightarrow> world" where
  "world_of r = (case r of Inl (e, w) \<Rightarrow> w | Inr w \<Rightarrow> w)"

text \<open>The account has a subscription to cancel: its \<open>stripeSubscriptionId\<close> is truthy.\<close>

definition has_subscription :: "user \<Rightarrow> bool" where
  "has_subscription u = (case stripeSubscriptionId u of Some sid \<Rightarrow> sid \<noteq> [] | None \<Rightarrow> False)"

text \<open>
  The row a successful registration inserts and the answer it returns, written out: the
  password column holds the result of \<open>bcrypt.hash\<close>, and the answer has the message, the
  account's identifier, email and premium flag, and the two tokens signed over the
  identifier.
\<close>

definition new_account_row :: "library \<Rightarrow> register_run \<Rightarrow> register_body \<Rightarrow> user" where
  "new_account_row lib run b =
     \<lparr>user_id = reg_userId run, email = normalizeEmail lib (reg_email b),
      password = bcrypt_hash lib 12 (reg_salt run) (reg_password b),
      isPremium = False, stripeCustomerId = None, stripeSubscriptionId = None,
      subscriptionStatus = ''inactive'',
      language = (case reg_language b of None \<Rightarrow> ''English''
                  | Some l \<Rightarrow> if l \<noteq> [] then l else ''English''),
      country = reg_country b, age = None, sex = None,
      gdprConsentDate = Some (reg_now run), marketingConsent = False,
      dataRetentionConsent = True, lastLogin = None, accountDeletionScheduled = None\<rparr>"

definition registered_response :: "config \<Rightarrow> library \<Rightarrow> register_run \<Rightarrow> register_body \<Rightarrow> response" where
  "registered_response cfg lib run b =
     \<lparr>status = 201,
      body = JObj [(''message'', JStr ''Registration successful''),
                   (''user'', JObj [(''id'', JStr (reg_userId run)),
                                    (''email'', JStr (normalizeEmail lib (reg_email b))),
                                    (''isPremium'', JBool False)]),
                   (''accessToken'', JStr (jwt_sign lib (JWT_SECRET cfg) (reg_userId run) (reg_now run))),
                   (''refreshToken'', JStr (jwt_sign lib (JWT_REFRESH_SECRET cfg) (reg_userId run) (reg_now run)))]\<rparr>"

section \<open>Example data\<close>

text \<open>A premium account with one submission and its registration-time consent.\<close>

definition alice :: user where
  "alice = \<lparr>user_id = ''u1'', email = ''alice@example.com'', password = ''$2b$12$hash'',
     isPremium = True, stripeCustomerId = Some ''cus_1'', stripeSubscriptionId = Some ''sub_1'',
     subscriptionStatus = ''active'', language = ''English'', country = None, age = None,
     sex = None, gdprConsentDate = Some 1000, marketingConsent = False,
     dataRetentionConsent = True, lastLogin = None, accountDeletionScheduled = None\<rparr>"

definition alice_analysis :: analysis where
  "alice_analysis = \<lparr>analysis_id = ''a1'', analysis_userId = ''u1'', imageUrl = ''https://img/1'',
     imagePublicId = ''ai-derma/u1/p1'', affectedArea = ''Face'', questionnaire = JObj [],
     aiResult = JObj [], isPremiumAnalysis = True, scheduledDeletion = Some 31536002000,
     createdAt = 2000\<rparr>"

definition alice_consent :: consent where
  "alice_consent = \<lparr>consent_id = ''c1'', consent_userId = ''u1'', consentType = ''gdpr'',
     consentGiven = True, ipAddress = ''10.0.0.1'', userAgent = None, version = ''1.0''\<rparr>"

definition world0 :: world where
  "world0 = \<lparr>users = [alice], analyses = [alice_analysis], consents = [alice_consent],
     effects = [], analysisHits = (\<lambda>k. 0), authHits = (\<lambda>k. 0)\<rparr>"

definition origin0 :: origin where
  "origin0 = \<lparr>ip = ''10.0.0.1'', agent = Some ''Mozilla/5.0''\<rparr>"

definition payment_failed_event :: event where
  "payment_failed_event =
     \<lparr>ev_type = ''invoice.payment_failed'',
      ev_object = \<lparr>obj_id = ''in_1'', obj_customer = ''cus_1'', obj_status = ''open''\<rparr>\<rparr>"

definition subscription_updated_event :: event where
  "subscription_updated_event =
     \<lparr>ev_type = ''customer.subscription.updated'',
      ev_object = \<lparr>obj_id = ''sub_1'', obj_customer = ''cus_1'', obj_status = ''canceled''\<rparr>\<rparr>"

text \<open>
  A configuration with the retention window of the sample environment file, stand-ins for
  the library functions (the stand-in for \<open>bcrypt.hash\<close> keeps the salt and the length
  of its input), and requests to \<open>POST /analysis\<close>: a GIF, a PNG above the size limit and
  a small PNG.
\<close>

definition config0 :: config where
  "config0 = \<lparr>CLOUDINARY_FOLDER = ''ai-derma'', DATA_RETENTION_DAYS = Some ''365'',
     production = True, JWT_SECRET = ''k1'', JWT_REFRESH_SECRET = ''k2''\<rparr>"

definition library0 :: library where
  "library0 = \<lparr>isEmail = (\<lambda>s. CHR ''@'' \<in> set s), normalizeEmail = (\<lambda>s. s),
     bcrypt_hash = (\<lambda>cost salt pw. ''$2b$12$'' @ salt @ replicate (length pw) (CHR ''#'')),
     jwt_sign = (\<lambda>key userId t. key @ ''.'' @ userId),
     json_parse = (\<lambda>s. if s = ''{}'' then Some (JObj []) else None)\<rparr>"

definition run0 :: analysis_run where
  "run0 = \<lparr>run_now = 5000, run_stamp = 5001, run_id = ''a2'', run_upload = Uploaded ''https://img/2'' ''ai-derma/u1/p2'',
     run_ai = Some (JObj [(''title'', JStr ''Eczema'')])\<rparr>"

definition gif_body :: analysis_body where
  "gif_body = \<lparr>image = Some \<lparr>mimetype = ''image/gif'', fsize = 100\<rparr>,
     questionnaire_field = Some ''{}'', area = Some ''Face''\<rparr>"

definition large_body :: analysis_body where
  "large_body = \<lparr>image = Some \<lparr>mimetype = ''image/png'', fsize = 10485761\<rparr>,
     questionnaire_field = Some ''{}'', area = Some ''Face''\<rparr>"




text \<open>Bob's registration, and the state after it.\<close>

definition bob_body :: register_body where
  "bob_body = \<lparr>reg_email = ''bob@example.com'', reg_password = ''SecurePass123!'',
     reg_gdprConsent = ''true'', reg_language = Some ''English'',
     reg_country = Some ''Lithuania''\<rparr>"

definition reg_run0 :: register_run where
  "reg_run0 = \<lparr>reg_now = 7000, reg_userId = ''u2'', reg_consentId = ''c3'', reg_salt = ''N9qo8uLOickgx2ZMRZoMye''\<rparr>"

definition reg_run1 :: register_run where
  "reg_run1 = \<lparr>reg_now = 8000, reg_userId = ''u3'', reg_consentId = ''c4'', reg_salt = ''Xk1pQ7LOickgx2ZMRZoMyu''\<rparr>"

definition world_with_bob :: world where
  "world_with_bob =
     world0\<lparr>users := [alice, new_account_row library0 reg_run0 bob_body],
            consents := [alice_consent,
                         \<lparr>consent_id = ''c3'', consent_userId = ''u2'', consentType = ''gdpr'',
                           consentGiven = True, ipAddress = ''10.0.0.1'',
                           userAgent = Some ''Mozilla/5.0'', version = ''1.0''\<rparr>],
            authHits := (\<lambda>k. if k = ''10.0.0.1'' then 1 else 0)\<rparr>"

section \<open>Lemmas on the queries\<close>

lemma find_map_same:
  assumes "\<And>x. P (h x) = P x"
  shows "List.find P (map h xs) = map_option h (List.find P xs)"
  using assms by (induction xs) auto

lemma findByPk_id: "findByPk us i = Some u \<Longrightarrow> user_id u = i"
  by (auto simp: findByPk_def find_Some_iff)

lemma findByPk_update_user:
  assumes "\<And>r. user_id (f r) = user_id r"
  shows "findByPk (users (update_user i f w)) i = map_option f (findByPk (users w) i)"
proof -
  let ?h = "\<lambda>u. if user_id u = i then f u else u"
  have "List.find (\<lambda>u. user_id u = i) (map ?h (users w))
          = map_option ?h (List.find (\<lambda>u. user_id u = i) (users w))"
    by (rule find_map_same) (simp add: assms)
  then have "findByPk (users (update_user i f w)) i = map_option ?h (findByPk (users w) i)"
    by (simp add: findByPk_def update_user_def)
  also have "\<dots> = map_option f (findByPk (users w) i)"
  proof (cases "findByPk (users w) i")
    case None
    then show ?thesis by simp
  next
    case (Some x)
    then show ?thesis using findByPk_id [OF Some] by simp
  qed
  finally show ?thesis .
qed

lemma authenticate_world0: "authenticate world0 (TokenFor ''u1'') = Inr alice"
  by (simp add: world0_def alice_def findByPk_def)

section \<open>Account deletion: the confirmation phrase\<close>

text \<open>
  C4. A request to \<open>POST /gdpr/delete-account\<close> by an authenticated account whose
  confirmation is not exactly the string \<open>DELETE\<close> (another string, a value of another
  type, or no value) is answered 400 with the confirmation message, and the whole state is
  returned as it was: the accounts, the submissions and the consent records are untouched
  and the trace of external effects has no new entry, so no call went to the payment
  processor or the media host.
\<close>

theorem delete_account_mismatch_unchanged:
  assumes "authenticate w tok = Inr u" and "confirmation \<noteq> Some (JStr ''DELETE'')"
  shows "delete_account_route tok folder stripeOk prefixOk folderOk confirmation w
           = (json_error 400 confirm_message, w)"
  using assms by (simp add: delete_account_route_def delete_account_handler_def)

theorem delete_account_mismatch_unchanged_witness:
  "authenticate world0 (TokenFor ''u1'') = Inr alice
   \<and> Some (JStr ''delete'') \<noteq> Some (JStr ''DELETE'')
   \<and> delete_account_route (TokenFor ''u1'') ''ai-derma'' True True True (Some (JStr ''delete'')) world0
       = (json_error 400 confirm_message, world0)"
proof -
  have c: "Some (JStr ''delete'') \<noteq> Some (JStr ''DELETE'')" by simp
  from delete_account_mismatch_unchanged [OF authenticate_world0 c] authenticate_world0 c
  show ?thesis by simp
qed

section \<open>Scheduled deletion\<close>

lemma schedule_deletion_found:
  assumes "findByPk (users w) i = Some u"
  shows "schedule_deletion_route (TokenFor i) t w =
           (\<lparr>status = 200, body = JObj [(''message'', JStr ''Account deletion scheduled''),
                                        (''deletionDate'', JNum (t + 30 * msPerDay))]\<rparr>,
            update_user i (\<lambda>r. r\<lparr>accountDeletionScheduled := Some (t + 30 * msPerDay)\<rparr>) w)"
  using assms findByPk_id [OF assms]
  by (simp add: schedule_deletion_route_def schedule_deletion_handler_def Let_def)

lemma cancel_deletion_found:
  assumes "findByPk (users w) i = Some u"
  shows "cancel_deletion_route (TokenFor i) w =
           (json_message ''Account deletion canceled'',
            update_user i (\<lambda>r. r\<lparr>accountDeletionScheduled := None\<rparr>) w)"
  using assms findByPk_id [OF assms]
  by (simp add: cancel_deletion_route_def cancel_deletion_handler_def)

text \<open>
  C7. For an account \<open>u\<close> the bearer token resolves to: scheduling the deletion and then
  cancelling it leaves the account with \<open>accountDeletionScheduled\<close> null; scheduling at
  \<open>t1\<close> and again at \<open>t2\<close> leaves it at thirty days after \<open>t2\<close>; and cancelling answers
  200 and leaves it null whatever it was before, null included. Nothing else of the account
  changes.
\<close>

theorem schedule_then_cancel:
  assumes "findByPk (users w) i = Some u"
  shows "findByPk (users (snd (cancel_deletion_route (TokenFor i)
                    (snd (schedule_deletion_route (TokenFor i) t w))))) i
           = Some (u\<lparr>accountDeletionScheduled := None\<rparr>)
       \<and> findByPk (users (snd (schedule_deletion_route (TokenFor i) t2
                    (snd (schedule_deletion_route (TokenFor i) t1 w))))) i
           = Some (u\<lparr>accountDeletionScheduled := Some (t2 + 30 * msPerDay)\<rparr>)
       \<and> fst (cancel_deletion_route (TokenFor i) w) = json_message ''Account deletion canceled''
       \<and> findByPk (users (snd (cancel_deletion_route (TokenFor i) w))) i
           = Some (u\<lparr>accountDeletionScheduled := None\<rparr>)"
proof -
  let ?s = "\<lambda>t w. update_user i (\<lambda>r. r\<lparr>accountDeletionScheduled := Some (t + 30 * msPerDay)\<rparr>) w"
  have s1: "\<And>t. findByPk (users (?s t w)) i
              = Some (u\<lparr>accountDeletionScheduled := Some (t + 30 * msPerDay)\<rparr>)"
    by (simp add: findByPk_update_user assms)
  have c1: "findByPk (users (snd (cancel_deletion_route (TokenFor i)
                    (snd (schedule_deletion_route (TokenFor i) t w))))) i
           = Some (u\<lparr>accountDeletionScheduled := None\<rparr>)"
    by (simp add: schedule_deletion_found [OF assms] cancel_deletion_found [OF s1]
        findByPk_update_user s1)
  have c2: "findByPk (users (snd (schedule_deletion_route (TokenFor i) t2
                    (snd (schedule_deletion_route (TokenFor i) t1 w))))) i
           = Some (u\<lparr>accountDeletionScheduled := Some (t2 + 30 * msPerDay)\<rparr>)"
    by (simp add: schedule_deletion_found [OF assms] schedule_deletion_found [OF s1]
        findByPk_update_user s1)
  have c3: "fst (cancel_deletion_route (TokenFor i) w) = json_message ''Account deletion canceled''"
    by (simp add: cancel_deletion_found [OF assms])
  have c4: "findByPk (users (snd (cancel_deletion_route (TokenFor i) w))) i
           = Some (u\<lparr>accountDeletionScheduled := None\<rparr>)"
    by (simp add: cancel_deletion_found [OF assms] findByPk_update_user assms)
  from c1 c2 c3 c4 show ?thesis by simp
qed

theorem schedule_then_cancel_witness:
  "findByPk (users world0) ''u1'' = Some alice
   \<and> findByPk (users (snd (cancel_deletion_route (TokenFor ''u1'')
                    (snd (schedule_deletion_route (TokenFor ''u1'') 5000 world0))))) ''u1''
           = Some (alice\<lparr>accountDeletionScheduled := None\<rparr>)
   \<and> findByPk (users (snd (schedule_deletion_route (TokenFor ''u1'') 9000
                    (snd (schedule_deletion_route (TokenFor ''u1'') 5000 world0))))) ''u1''
           = Some (alice\<lparr>accountDeletionScheduled := Some 2592009000\<rparr>)
   \<and> accountDeletionScheduled alice = None
   \<and> fst (cancel_deletion_route (TokenFor ''u1'') world0) = json_message ''Account deletion canceled''
   \<and> findByPk (users (snd (cancel_deletion_route (TokenFor ''u1'') world0))) ''u1'' = Some alice"
proof -
  have a: "findByPk (users world0) ''u1'' = Some alice"
    by (simp add: world0_def alice_def findByPk_def)
  have n: "accountDeletionScheduled alice = None" "alice\<lparr>accountDeletionScheduled := None\<rparr> = alice"
    by (simp_all add: alice_def)
  from schedule_then_cancel [OF a, of 5000 9000 5000] a n show ?thesis
    by (simp add: msPerDay_def)
qed

section \<open>The consent endpoint\<close>

text \<open>
  C10. For an authenticated request to \<open>POST /gdpr/consent\<close>: the category \<open>gdpr\<close> is
  answered 400 \<open>Invalid consent type\<close> and the state is returned as it was; the answer is
  200 only for one of the categories \<open>marketing\<close>, \<open>data_retention\<close> and \<open>cookies\<close>;
  and every consent record that is in the table after the request and was not there before
  has one of these three categories, so none is of the essential category.
\<close>

theorem consent_route_rejects_gdpr:
  assumes "authenticate w tok = Inr u"
  shows "consent_route tok req newId (Some (JStr ''gdpr'')) given w
           = (json_error 400 ''Invalid consent type'', w)
       \<and> (status (fst (consent_route tok req newId ctype given w)) = 200
            \<longrightarrow> ctype \<in> {Some (JStr ''marketing''), Some (JStr ''data_retention''),
                         Some (JStr ''cookies'')})
       \<and> (\<forall>c \<in> set (consents (snd (consent_route tok req newId ctype given w))).
             c \<in> set (consents w)
             \<or> consentType c \<in> {''marketing'', ''data_retention'', ''cookies''})"
proof -
  have 1: "consent_route tok req newId (Some (JStr ''gdpr'')) given w
           = (json_error 400 ''Invalid consent type'', w)"
    using assms by (simp add: consent_route_def consent_handler_def)
  have 2: "status (fst (consent_route tok req newId ctype given w)) = 200
            \<longrightarrow> ctype \<in> {Some (JStr ''marketing''), Some (JStr ''data_retention''),
                         Some (JStr ''cookies'')}"
    using assms
    by (auto simp: consent_route_def consent_handler_def json_error_def Let_def
        split: option.splits json.splits if_splits)
  have 3: "\<forall>c \<in> set (consents (snd (consent_route tok req newId ctype given w))).
             c \<in> set (consents w)
             \<or> consentType c \<in> {''marketing'', ''data_retention'', ''cookies''}"
    using assms
    by (auto simp: consent_route_def consent_handler_def logConsent_def update_user_def
        consent_types_def emit_def Let_def split: option.splits json.splits if_splits)
  from 1 2 3 show ?thesis by blast
qed

theorem consent_route_rejects_gdpr_witness:
  "authenticate world0 (TokenFor ''u1'') = Inr alice
   \<and> consent_route (TokenFor ''u1'') origin0 ''c2'' (Some (JStr ''gdpr'')) True world0
           = (json_error 400 ''Invalid consent type'', world0)
   \<and> consents (snd (consent_route (TokenFor ''u1'') origin0 ''c2'' (Some (JStr ''cookies'')) True world0))
       = [alice_consent,
          \<lparr>consent_id = ''c2'', consent_userId = ''u1'', consentType = ''cookies'',
            consentGiven = True, ipAddress = ''10.0.0.1'', userAgent = Some ''Mozilla/5.0'',
            version = ''1.0''\<rparr>]"
proof -
  have b: "consents (snd (consent_route (TokenFor ''u1'') origin0 ''c2'' (Some (JStr ''cookies'')) True world0))
       = [alice_consent,
          \<lparr>consent_id = ''c2'', consent_userId = ''u1'', consentType = ''cookies'',
            consentGiven = True, ipAddress = ''10.0.0.1'', userAgent = Some ''Mozilla/5.0'',
            version = ''1.0''\<rparr>]"
    by (simp add: consent_route_def consent_handler_def logConsent_def consent_types_def
        Let_def origin0_def world0_def alice_def findByPk_def)
  from consent_route_rejects_gdpr [OF authenticate_world0, where req = origin0
      and newId = "''c2''" and given = True and ctype = "Some (JStr ''cookies'')"]
    authenticate_world0 b
  show ?thesis by simp
qed

section \<open>Account deletion: failures of the external calls\<close>

text \<open>
  C2, as the source has it. Alice has a subscription; the payment processor's call fails.
  \<open>cancelSubscription\<close> logs the error and throws it again, the handler's \<open>catch\<close>
  answers 500, and the account, its submission and its consent record are all still there:
  the failure of the payment processor does abort the deletion.
\<close>

theorem delete_account_stripe_failure_aborts:
  "status (fst (delete_account_route (TokenFor ''u1'') ''ai-derma'' False True True
                  (Some (JStr ''DELETE'')) world0)) = 500
   \<and> snd (delete_account_route (TokenFor ''u1'') ''ai-derma'' False True True
             (Some (JStr ''DELETE'')) world0)
       = \<lparr>users = [alice], analyses = [alice_analysis], consents = [alice_consent],
          effects = [StripeSubscriptionsCancel ''sub_1'',
                     ConsoleError ''Stripe subscription cancellation error:'',
                     ConsoleError ''Account deletion error:''],
          analysisHits = (\<lambda>k. 0), authHits = (\<lambda>k. 0)\<rparr>"
  by (simp add: delete_account_route_def delete_account_handler_def cancelSubscription_def
      emit_def Let_def world0_def alice_def findByPk_def json_error_def)

text \<open>
  C2, amended. For an authenticated request with the confirmation \<open>DELETE\<close>:
  when the account has a subscription and the payment processor's call to cancel it fails,
  the failure is logged, the answer is 500 and the three tables are as before;
  in every other case the answer is 200 and the account's submissions, its consent records
  and the account itself are deleted (the rows of other accounts stay), also when a call to
  the media host fails, which is then logged.
\<close>

theorem delete_account_best_effort_on_media_host:
  assumes "authenticate w tok = Inr u"
  shows "(case delete_account_route tok folder stripeOk prefixOk folderOk (Some (JStr ''DELETE'')) w of
           (r, w') \<Rightarrow>
             if has_subscription u \<and> \<not> stripeOk
             then r = json_error 500 ''Failed to delete account''
                  \<and> users w' = users w \<and> analyses w' = analyses w \<and> consents w' = consents w
                  \<and> ConsoleError ''Stripe subscription cancellation error:'' \<in> set (effects w')
             else r = json_message ''Account and all associated data deleted successfully''
                  \<and> users w' = filter (\<lambda>r. user_id r \<noteq> user_id u) (users w)
                  \<and> analyses w' = filter (\<lambda>a. analysis_userId a \<noteq> user_id u) (analyses w)
                  \<and> consents w' = filter (\<lambda>c. consent_userId c \<noteq> user_id u) (consents w)
                  \<and> (\<not> (prefixOk \<and> folderOk)
                       \<longrightarrow> ConsoleError ''Bulk image deletion error:'' \<in> set (effects w')))"
  using assms
  by (auto simp: delete_account_route_def delete_account_handler_def cancelSubscription_def
      deleteUserImages_def has_subscription_def emit_def Let_def split: option.splits)

theorem delete_account_best_effort_on_media_host_witness:
  "authenticate world0 (TokenFor ''u1'') = Inr alice
   \<and> fst (delete_account_route (TokenFor ''u1'') ''ai-derma'' True False True
             (Some (JStr ''DELETE'')) world0)
       = json_message ''Account and all associated data deleted successfully''
   \<and> users (snd (delete_account_route (TokenFor ''u1'') ''ai-derma'' True False True
                    (Some (JStr ''DELETE'')) world0)) = []
   \<and> analyses (snd (delete_account_route (TokenFor ''u1'') ''ai-derma'' True False True
                    (Some (JStr ''DELETE'')) world0)) = []
   \<and> consents (snd (delete_account_route (TokenFor ''u1'') ''ai-derma'' True False True
                    (Some (JStr ''DELETE'')) world0)) = []
   \<and> ConsoleError ''Bulk image deletion error:''
       \<in> set (effects (snd (delete_account_route (TokenFor ''u1'') ''ai-derma'' True False True
                    (Some (JStr ''DELETE'')) world0)))"
proof -
  have rows: "users world0 = [alice]" "analyses world0 = [alice_analysis]"
      "consents world0 = [alice_consent]" "user_id alice = ''u1''"
      "analysis_userId alice_analysis = ''u1''" "consent_userId alice_consent = ''u1''"
    by (simp_all add: world0_def alice_def alice_analysis_def alice_consent_def)
  from delete_account_best_effort_on_media_host [OF authenticate_world0,
      where folder = "''ai-derma''" and stripeOk = True and prefixOk = False and folderOk = True]
    authenticate_world0
  show ?thesis by (simp add: rows split: prod.splits)
qed

section \<open>Billing events\<close>

lemma webhook_route_users:
  "users (snd (webhook_route c w)) =
     users (world_of (case c of None \<Rightarrow> Inr w | Some ev \<Rightarrow> dispatch ev w))"
  by (cases c)
     (auto simp: webhook_route_def handleWebhook_def world_of_def emit_def
        split: sum.splits prod.splits)

text \<open>
  C1. Alice is premium with status \<open>active\<close>, so her flag and her status agree. The event
  \<open>invoice.payment_failed\<close> for her customer is handled with answer 200 and sets her
  status to \<open>past_due\<close> while \<open>isPremium\<close> stays true: after the event the flag no longer
  says whether the status is \<open>active\<close>.
\<close>

theorem payment_failed_breaks_premium_flag:
  "premium_in_step alice
   \<and> webhook_route (Some payment_failed_event) world0
       = (\<lparr>status = 200, body = JObj [(''received'', JBool True)]\<rparr>,
          world0\<lparr>users := [alice\<lparr>subscriptionStatus := ''past_due''\<rparr>]\<rparr>)
   \<and> isPremium (alice\<lparr>subscriptionStatus := ''past_due''\<rparr>)
   \<and> subscriptionStatus (alice\<lparr>subscriptionStatus := ''past_due''\<rparr>) \<noteq> ''active''"
  by (simp add: webhook_route_def handleWebhook_def dispatch_def handlePaymentFailed_def
      update_user_def payment_failed_event_def world0_def alice_def premium_in_step_def)

text \<open>
  The other events keep the invariant: when every account's flag agrees with its status
  before an event of any kind but \<open>invoice.payment_failed\<close>, it does afterwards.
\<close>

lemma subscription_events_keep_premium_in_step:
  assumes "ev_type ev \<noteq> ''invoice.payment_failed''"
      and "\<forall>u \<in> set (users w). premium_in_step u"
  shows "\<forall>u \<in> set (users (snd (webhook_route (Some ev) w))). premium_in_step u"
  using assms
  by (auto simp: webhook_route_users world_of_def dispatch_def updateSubscriptionStatus_def
      handleSubscriptionDeleted_def update_user_def premium_in_step_def
      split: option.splits if_splits)

lemma updateSubscriptionStatus_users_cong:
  assumes "users w1 = users w2"
  shows "users (world_of (updateSubscriptionStatus s w1)) = users (world_of (updateSubscriptionStatus s w2))"
  using assms
  by (auto simp: updateSubscriptionStatus_def world_of_def update_user_def split: option.splits)

lemma updateSubscriptionStatus_idem:
  "users (world_of (updateSubscriptionStatus s (world_of (updateSubscriptionStatus s w))))
     = users (world_of (updateSubscriptionStatus s w))"
proof (cases "List.find (\<lambda>u. stripeCustomerId u = Some (obj_customer s)) (users w)")
  case None
  then show ?thesis by (simp add: updateSubscriptionStatus_def world_of_def)
next
  case (Some u)
  show ?thesis
  proof (cases "obj_status s \<in> set subscription_statuses")
    case False
    with Some show ?thesis by (simp add: updateSubscriptionStatus_def world_of_def)
  next
    case True
    let ?g = "\<lambda>r. r\<lparr>stripeSubscriptionId := Some (obj_id s),
                     subscriptionStatus := obj_status s,
                     isPremium := (obj_status s = ''active'')\<rparr>"
    let ?h = "\<lambda>x. if user_id x = user_id u then ?g x else x"
    let ?w1 = "update_user (user_id u) ?g w"
    have w1: "world_of (updateSubscriptionStatus s w) = ?w1"
      using Some True by (simp add: updateSubscriptionStatus_def world_of_def)
    have us1: "users ?w1 = map ?h (users w)"
      by (simp add: update_user_def)
    have "List.find (\<lambda>u. stripeCustomerId u = Some (obj_customer s)) (map ?h (users w))
            = map_option ?h (List.find (\<lambda>u. stripeCustomerId u = Some (obj_customer s)) (users w))"
      by (rule find_map_same) simp
    then have f1: "List.find (\<lambda>u. stripeCustomerId u = Some (obj_customer s)) (users ?w1)
            = Some (?g u)"
      using Some by (simp add: us1)
    have "world_of (updateSubscriptionStatus s ?w1) = update_user (user_id u) ?g ?w1"
      using f1 True by (simp add: updateSubscriptionStatus_def world_of_def)
    then have "users (world_of (updateSubscriptionStatus s ?w1)) = map ?h (map ?h (users w))"
      by (simp add: update_user_def)
    also have "\<dots> = map ?h (users w)"
      by (simp add: comp_def)
    finally show ?thesis by (simp add: w1 us1)
  qed
qed

lemma webhook_route_fst:
  "fst (webhook_route (Some ev) w) =
     (if isl (dispatch ev w) then json_error 400 ''Webhook processing failed''
      else \<lparr>status = 200, body = JObj [(''received'', JBool True)]\<rparr>)"
  by (auto simp: webhook_route_def handleWebhook_def split: sum.splits prod.splits)

lemma updateSubscriptionStatus_isl_cong:
  assumes "users w1 = users w2"
  shows "isl (updateSubscriptionStatus s w1) = isl (updateSubscriptionStatus s w2)"
  using assms by (auto simp: updateSubscriptionStatus_def split: option.splits)

lemma updateSubscriptionStatus_isl_idem:
  "isl (updateSubscriptionStatus s (world_of (updateSubscriptionStatus s w)))
     = isl (updateSubscriptionStatus s w)"
proof (cases "List.find (\<lambda>u. stripeCustomerId u = Some (obj_customer s)) (users w)")
  case None
  then show ?thesis by (simp add: updateSubscriptionStatus_def world_of_def)
next
  case (Some u)
  show ?thesis
  proof (cases "obj_status s \<in> set subscription_statuses")
    case False
    with Some show ?thesis by (simp add: updateSubscriptionStatus_def world_of_def)
  next
    case True
    then show ?thesis by (auto simp: updateSubscriptionStatus_def split: option.splits)
  qed
qed

text \<open>
  C9. For an event \<open>customer.subscription.created\<close> or \<open>customer.subscription.updated\<close>
  and any state, delivering the same event a second time leaves the table of accounts as the
  first delivery left it, and is answered as the first was. (A delivery that fails, on a
  status outside the column's enumeration, changes no account either time; only the log
  grows.)
\<close>

theorem subscription_update_idempotent:
  assumes "ev_type ev = ''customer.subscription.created''
           \<or> ev_type ev = ''customer.subscription.updated''"
  shows "users (snd (webhook_route (Some ev) (snd (webhook_route (Some ev) w))))
           = users (snd (webhook_route (Some ev) w))
       \<and> fst (webhook_route (Some ev) (snd (webhook_route (Some ev) w)))
           = fst (webhook_route (Some ev) w)"
proof -
  have d: "\<And>w. dispatch ev w = updateSubscriptionStatus (ev_object ev) w"
    using assms by (auto simp: dispatch_def)
  have "users (snd (webhook_route (Some ev) (snd (webhook_route (Some ev) w))))
          = users (world_of (updateSubscriptionStatus (ev_object ev) (snd (webhook_route (Some ev) w))))"
    by (simp add: webhook_route_users d)
  also have "\<dots> = users (world_of (updateSubscriptionStatus (ev_object ev)
                        (world_of (updateSubscriptionStatus (ev_object ev) w))))"
    by (rule updateSubscriptionStatus_users_cong) (simp add: webhook_route_users d)
  also have "\<dots> = users (world_of (updateSubscriptionStatus (ev_object ev) w))"
    by (rule updateSubscriptionStatus_idem)
  also have "\<dots> = users (snd (webhook_route (Some ev) w))"
    by (simp add: webhook_route_users d)
  finally have accounts: "users (snd (webhook_route (Some ev) (snd (webhook_route (Some ev) w))))
           = users (snd (webhook_route (Some ev) w))" .
  have "isl (updateSubscriptionStatus (ev_object ev) (snd (webhook_route (Some ev) w)))
         = isl (updateSubscriptionStatus (ev_object ev)
                  (world_of (updateSubscriptionStatus (ev_object ev) w)))"
    by (rule updateSubscriptionStatus_isl_cong) (simp add: webhook_route_users d)
  then have answer: "fst (webhook_route (Some ev) (snd (webhook_route (Some ev) w)))
           = fst (webhook_route (Some ev) w)"
    by (simp only: webhook_route_fst d updateSubscriptionStatus_isl_idem)
  from accounts answer show ?thesis by simp
qed

theorem subscription_update_idempotent_witness:
  "(ev_type subscription_updated_event = ''customer.subscription.created''
      \<or> ev_type subscription_updated_event = ''customer.subscription.updated'')
   \<and> users (snd (webhook_route (Some subscription_updated_event) world0))
       = [alice\<lparr>subscriptionStatus := ''canceled'', isPremium := False\<rparr>]
   \<and> users (snd (webhook_route (Some subscription_updated_event)
               (snd (webhook_route (Some subscription_updated_event) world0))))
       = [alice\<lparr>subscriptionStatus := ''canceled'', isPremium := False\<rparr>]"
proof -
  have t: "ev_type subscription_updated_event = ''customer.subscription.created''
      \<or> ev_type subscription_updated_event = ''customer.subscription.updated''"
    by (simp add: subscription_updated_event_def)
  have once: "users (snd (webhook_route (Some subscription_updated_event) world0))
       = [alice\<lparr>subscriptionStatus := ''canceled'', isPremium := False\<rparr>]"
    by (simp add: webhook_route_def handleWebhook_def dispatch_def updateSubscriptionStatus_def
      update_user_def subscription_updated_event_def subscription_statuses_def world0_def alice_def)
  from subscription_update_idempotent [OF t, of world0] t once show ?thesis by simp
qed

section \<open>The quota of submissions\<close>



section \<open>Rejected images\<close>

text \<open>
  C3. Alice submits a GIF of 100 bytes with a valid questionnaire: \<open>validateImage\<close>
  throws, the handler's \<open>catch\<close> answers 500 with the error's message. She submits a PNG
  of 10 MiB and one byte: multer's limit refuses it and the application's error handler
  answers 500. In both cases nothing is uploaded and no submission is stored, but the
  status is 500 and not 400.
\<close>

theorem invalid_image_answers_500:
  "create_analysis_route config0 library0 run0 (TokenFor ''u1'') origin0 gif_body world0
     = (json_error 500 ''Invalid file type. Only JPG and PNG are allowed.'',
        world0\<lparr>effects := [ConsoleError ''Analysis error:''],
               analysisHits := (\<lambda>k. if k = ''u1'' then 1 else 0)\<rparr>)
   \<and> create_analysis_route config0 library0 run0 (TokenFor ''u1'') origin0 large_body world0
     = (json_error 500 ''Internal server error'',
        world0\<lparr>effects := [ConsoleError ''File too large''],
               analysisHits := (\<lambda>k. if k = ''u1'' then 1 else 0)\<rparr>)"
  by (auto simp: create_analysis_route_def requireGDPRConsent_def analysisLimiter_def
      rateLimit_def Let_def analysis_max_def analysis_key_def multer_single_def startsWith_def
      maxSize_def create_analysis_handler_def isJSON_def validateImage_def allowedTypes_def
      analysis_catch_def app_error_handler_def emit_def
      config0_def library0_def gif_body_def large_body_def world0_def alice_def findByPk_def fun_eq_iff)

text \<open>
  In general: an image outside the allowed types or above the size limit, sent with a valid
  questionnaire by an account the earlier middleware lets through, is answered 500; the
  submissions are as before and the only new effects are log lines.
\<close>

lemma invalid_image_never_400:
  assumes "authenticate w tok = Inr u" and "gdprConsentDate u \<noteq> None"
      and "analysisHits w (analysis_key (Some u) req) < analysis_max (Some u)"
      and "image b = Some f"
      and "mimetype f \<notin> set allowedTypes \<or> maxSize < fsize f"
      and "questionnaire_field b = Some q" and "isJSON lib q"
  shows "status (fst (create_analysis_route cfg lib run tok req b w)) = 500
       \<and> analyses (snd (create_analysis_route cfg lib run tok req b w)) = analyses w
       \<and> (\<forall>e \<in> set (effects (snd (create_analysis_route cfg lib run tok req b w))).
             e \<in> set (effects w) \<or> (\<exists>msg. e = ConsoleError msg))"
  using assms
  by (auto simp: create_analysis_route_def requireGDPRConsent_def analysisLimiter_def
      rateLimit_def Let_def multer_single_def create_analysis_handler_def validateImage_def
      analysis_catch_def app_error_handler_def emit_def json_error_def
      split: option.splits error.splits)

section \<open>The expiry of a submission\<close>


lemma parseInt_examples:
  "parseInt (Some ''30'') = Some 30"
  "parseInt (Some '' -7 days'') = Some (- 7)"
  "parseInt (Some ''0x1F'') = Some 31"
  "parseInt (Some ''90d'') = Some 90"
  "parseInt (Some ''days'') = None"
  "parseInt (Some []) = None"
  by (simp_all add: parseInt_def isWhiteSpace_def digitValue_def Let_def)










section \<open>Registration\<close>

lemma register_errors_Nil:
  "register_errors lib b = [] \<longleftrightarrow>
     isEmail lib (reg_email b) \<and> 8 \<le> length (reg_password b) \<and> reg_gdprConsent b = ''true''"
  by (auto simp: register_errors_def)

lemma register_201:
  assumes "register_route cfg lib run req b w = (r1, w1)" and "status r1 = 201"
  shows "register_errors lib b = []
       \<and> users w1 = users w @ [new_account_row lib run b]
       \<and> r1 = registered_response cfg lib run b"
  using assms
  by (auto simp: register_route_def authLimiter_def rateLimit_def register_handler_def
      User_create_def logConsent_def consent_types_def emit_def json_error_def Let_def
      new_account_row_def registered_response_def generateTokens_def register_errors_Nil
      split: prod.splits option.splits sum.splits if_splits)

lemma register_duplicate:
  assumes "u \<in> set (users w)" and "email u = normalizeEmail lib (reg_email b)"
      and "register_errors lib b = []" and "authHits w (ip req) < 5"
  shows "register_route cfg lib run req b w
           = (json_error 400 ''Email already registered'',
              w\<lparr>authHits := (authHits w)(ip req := Suc (authHits w (ip req)))\<rparr>)"
proof -
  have "List.find (\<lambda>u. email u = normalizeEmail lib (reg_email b)) (users w) \<noteq> None"
    using assms(1,2) by (auto simp: find_None_iff)
  then obtain x where "List.find (\<lambda>u. email u = normalizeEmail lib (reg_email b)) (users w) = Some x"
    by auto
  with assms(3,4) show ?thesis
    by (simp add: register_route_def authLimiter_def rateLimit_def register_handler_def Let_def)
qed

lemma register_same_hash:
  assumes "8 \<le> length (reg_password b)" and "8 \<le> length pw"
      and "bcrypt_hash lib 12 (reg_salt run) pw = bcrypt_hash lib 12 (reg_salt run) (reg_password b)"
  shows "register_route cfg lib run req (b\<lparr>reg_password := pw\<rparr>) w = register_route cfg lib run req b w"
proof -
  have e: "register_errors lib (b\<lparr>reg_password := pw\<rparr>) = register_errors lib b"
    using assms(1,2) by (simp add: register_errors_def)
  have n: "pw \<noteq> []" "reg_password b \<noteq> []" using assms(1,2) by auto
  have c: "User_create lib run mail pw l c d w' = User_create lib run mail (reg_password b) l c d w'"
    for mail l c d w'
    using n assms(3) by (simp add: User_create_def)
  have "register_handler cfg lib run req (b\<lparr>reg_password := pw\<rparr>) w'
          = register_handler cfg lib run req b w'" for w'
    by (simp add: register_handler_def e c Let_def split: option.splits)
  then show ?thesis by (simp add: register_route_def split: prod.splits option.splits)
qed

text \<open>
  C8. Take a registration that is answered 201, and a second registration with the same
  email that passes the route's validators and is let through by the route's rate limiter.
  The second is answered 400 \<open>Email already registered\<close> and adds no account. The first
  added exactly one account row, whose password column is the \<open>bcrypt\<close> hash (cost 12,
  fresh salt) of the submitted password, and its answer is the one written out in
  \<open>registered_response\<close>, which has no field computed from the password. Moreover the
  answer and the state after the first registration are the same for every other password
  of valid length with the same hash: nothing stored or returned depends on the password
  except through its hash.
\<close>

theorem register_duplicate_email_and_hashed_credential:
  assumes "register_route cfg lib run req b w = (r1, w1)" and "status r1 = 201"
      and "reg_email b2 = reg_email b" and "register_errors lib b2 = []"
      and "authHits w1 (ip req2) < 5"
  shows "fst (register_route cfg lib run2 req2 b2 w1) = json_error 400 ''Email already registered''
       \<and> users (snd (register_route cfg lib run2 req2 b2 w1)) = users w1
       \<and> users w1 = users w @ [new_account_row lib run b]
       \<and> password (new_account_row lib run b) = bcrypt_hash lib 12 (reg_salt run) (reg_password b)
       \<and> r1 = registered_response cfg lib run b
       \<and> (\<forall>pw. 8 \<le> length pw
              \<and> bcrypt_hash lib 12 (reg_salt run) pw
                  = bcrypt_hash lib 12 (reg_salt run) (reg_password b)
            \<longrightarrow> register_route cfg lib run req (b\<lparr>reg_password := pw\<rparr>) w = (r1, w1))"
proof -
  from register_201 [OF assms(1,2)] have v: "register_errors lib b = []"
      and us: "users w1 = users w @ [new_account_row lib run b]"
      and r: "r1 = registered_response cfg lib run b"
    by auto
  have m: "new_account_row lib run b \<in> set (users w1)" by (simp add: us)
  have em: "email (new_account_row lib run b) = normalizeEmail lib (reg_email b2)"
    by (simp add: new_account_row_def assms(3))
  note d = register_duplicate [OF m em assms(4,5), of cfg run2]
  have len: "8 \<le> length (reg_password b)" using v by (simp add: register_errors_Nil)
  have ni: "\<forall>pw. 8 \<le> length pw
              \<and> bcrypt_hash lib 12 (reg_salt run) pw
                  = bcrypt_hash lib 12 (reg_salt run) (reg_password b)
            \<longrightarrow> register_route cfg lib run req (b\<lparr>reg_password := pw\<rparr>) w = (r1, w1)"
    using register_same_hash [OF len] assms(1) by simp
  have p: "password (new_account_row lib run b) = bcrypt_hash lib 12 (reg_salt run) (reg_password b)"
    by (simp add: new_account_row_def)
  from d us r ni p show ?thesis by simp
qed

lemma bob_registers:
  "register_route config0 library0 reg_run0 origin0 bob_body world0
     = (registered_response config0 library0 reg_run0 bob_body, world_with_bob)"
  by (auto simp: register_route_def authLimiter_def rateLimit_def register_handler_def
      register_errors_def User_create_def logConsent_def consent_types_def Let_def
      generateTokens_def registered_response_def new_account_row_def world_with_bob_def
      bob_body_def reg_run0_def origin0_def config0_def library0_def world0_def alice_def
      fun_eq_iff)

theorem register_duplicate_email_and_hashed_credential_witness:
  "register_route config0 library0 reg_run0 origin0 bob_body world0
     = (registered_response config0 library0 reg_run0 bob_body, world_with_bob)
   \<and> status (registered_response config0 library0 reg_run0 bob_body) = 201
   \<and> register_errors library0 bob_body = []
   \<and> authHits world_with_bob (ip origin0) < 5
   \<and> fst (register_route config0 library0 reg_run1 origin0 bob_body world_with_bob)
       = json_error 400 ''Email already registered''
   \<and> users (snd (register_route config0 library0 reg_run1 origin0 bob_body world_with_bob))
       = users world_with_bob
   \<and> password (new_account_row library0 reg_run0 bob_body)
       = ''$2b$12$N9qo8uLOickgx2ZMRZoMye##############''"
proof -
  have s: "status (registered_response config0 library0 reg_run0 bob_body) = 201"
    by (simp add: registered_response_def)
  have v: "register_errors library0 bob_body = []"
    by (simp add: register_errors_def library0_def bob_body_def)
  have h: "authHits world_with_bob (ip origin0) < 5"
    by (simp add: world_with_bob_def origin0_def)
  have p: "password (new_account_row library0 reg_run0 bob_body)
       = ''$2b$12$N9qo8uLOickgx2ZMRZoMye##############''"
    by (simp add: new_account_row_def library0_def reg_run0_def bob_body_def)
  from register_duplicate_email_and_hashed_credential [OF bob_registers s refl v h, of reg_run1]
    bob_registers s v h p
  show ?thesis by simp
qed

end
